theory Spec2Isabelle
  imports Main "HOL-Library.Sublist"
begin

section \<open>Exceptions and values\<close>

text \<open>
  The module \<^verbatim>\<open>src/agents/models/mcp_model.py\<close> raises \<^verbatim>\<open>ValueError\<close> and
  \<^verbatim>\<open>AgentsException\<close> itself, can raise \<^verbatim>\<open>KeyError\<close> through a dictionary
  subscript, and lets through whatever the MCP client library raises. An exception is
  modelled by its class, the text \<^verbatim>\<open>str(e)\<close> gives for it, and its
  \<^verbatim>\<open>__context__\<close>: Python sets the context of an exception raised inside an
  \<^verbatim>\<open>except\<close> block to the exception being handled.

  A class of the client library is \<open>Foreign c b\<close>: \<open>c\<close> is the class name and \<open>b\<close>
  tells whether the class derives from \<^verbatim>\<open>Exception\<close>. The classes that derive from
  \<^verbatim>\<open>BaseException\<close> only (\<^verbatim>\<open>KeyboardInterrupt\<close>, \<^verbatim>\<open>SystemExit\<close>,
  \<^verbatim>\<open>asyncio.CancelledError\<close>) are not matched by \<^verbatim>\<open>except Exception\<close>.
\<close>

datatype exn_class =
  ValueError | KeyError | RuntimeError | AgentsException | Foreign string bool

datatype exn = Exn (exn_cls: exn_class) (exn_str: string) (exn_context: "exn option")

fun is_Exception :: "exn \<Rightarrow> bool" where
  "is_Exception (Exn (Foreign c b) m ctx) = b"
| "is_Exception (Exn k m ctx) = True"

text \<open>Values that travel as tool arguments, tool results and parameter schemas.\<close>

datatype pyval =
    PNone
  | PBool bool
  | PInt int
  | PStr string
  | PList "pyval list"
  | PDict "(string \<times> pyval) list"

section \<open>ServerConfig\<close>

record server_config =
  name :: string
  base_url :: "string option"
  api_key :: "string option"
  command :: "string option"
  args :: "string list"
  env :: "(string \<times> string) list"

text \<open>
  \<^verbatim>\<open>args or []\<close> and \<^verbatim>\<open>env or {}\<close>: \<^verbatim>\<open>None\<close> and the empty container are
  both falsy and give the empty container.
\<close>

definition or_empty :: "'a list option \<Rightarrow> 'a list" where
  "or_empty v = (case v of None \<Rightarrow> [] | Some xs \<Rightarrow> (if xs = [] then [] else xs))"

text \<open>
  \<^verbatim>\<open>ServerConfig.__init__\<close>: the six attributes are assigned, then the two checks run
  in the order of the source. The function touches nothing but the object under
  construction, which is dropped when a check raises.
\<close>

definition ServerConfig_init ::
  "string \<Rightarrow> string option \<Rightarrow> string option \<Rightarrow> string option \<Rightarrow>
   string list option \<Rightarrow> (string \<times> string) list option \<Rightarrow> exn + server_config" where
  "ServerConfig_init nm burl akey cmd as ev =
     (let self = \<lparr>name = nm, base_url = burl, api_key = akey, command = cmd,
                  args = or_empty as, env = or_empty ev\<rparr>
      in if burl = None \<and> cmd = None then
           Inl (Exn ValueError
                  (''Server '' @ nm @ '' must have either base_url or command specified'') None)
         else if burl \<noteq> None \<and> cmd \<noteq> None then
           Inl (Exn ValueError
                  (''Server '' @ nm @ '' cannot have both base_url and command specified'') None)
         else Inr self)"

text \<open>
  The class defines no \<^verbatim>\<open>__setattr__\<close> and no \<^verbatim>\<open>__slots__\<close> and is not a
  frozen dataclass, so an assignment to an attribute of an instance is carried out by
  \<^verbatim>\<open>object.__setattr__\<close>: it rebinds the attribute and does not raise.
\<close>

datatype assignment =
    Set_name string
  | Set_base_url "string option"
  | Set_api_key "string option"
  | Set_command "string option"
  | Set_args "string list"
  | Set_env "(string \<times> string) list"

fun ServerConfig_setattr :: "server_config \<Rightarrow> assignment \<Rightarrow> exn + server_config" where
  "ServerConfig_setattr self (Set_name v) = Inr (self\<lparr>name := v\<rparr>)"
| "ServerConfig_setattr self (Set_base_url v) = Inr (self\<lparr>base_url := v\<rparr>)"
| "ServerConfig_setattr self (Set_api_key v) = Inr (self\<lparr>api_key := v\<rparr>)"
| "ServerConfig_setattr self (Set_command v) = Inr (self\<lparr>command := v\<rparr>)"
| "ServerConfig_setattr self (Set_args v) = Inr (self\<lparr>args := v\<rparr>)"
| "ServerConfig_setattr self (Set_env v) = Inr (self\<lparr>env := v\<rparr>)"

section \<open>The MCP client library and the outside world\<close>

text \<open>
  The package \<^verbatim>\<open>mcp\<close> (\<^verbatim>\<open>ClientSession\<close>, \<^verbatim>\<open>http_client\<close>,
  \<^verbatim>\<open>stdio_client\<close>) is not part of the repository. Its operations talk to servers,
  so what they return is not determined by the program: each is a parameter, a field of
  \<open>mcp_library\<close>, that gets the history of all earlier interactions and answers with a
  value or with the exception it raises. The history lets an operation fail once and
  succeed later. Two more parameters stand for what happens before a client runs:
  \<open>loop_is_running\<close> tells whether the calling thread is inside a running event
  loop, and \<open>stdio_server_parameters\<close> is the constructor
  \<^verbatim>\<open>StdioServerParameters\<close>, which validates its arguments and may raise.

  A \<^verbatim>\<open>ClientSession\<close> is an object: two sessions built from equal streams are still
  two instances. The model gives every constructed session a fresh \<open>session_id\<close>.
\<close>

type_synonym stream = nat

record client_session =
  session_id :: nat
  read_stream :: stream
  write_stream :: stream

text \<open>
  The dictionary a server advertises for one tool, with the three keys this module
  reads; \<open>None\<close> is an absent key.
\<close>

record tool_descriptor =
  d_name :: "string option"
  d_description :: "string option"
  d_parameters :: "pyval option"

datatype event =
    Http_client "string option" "string option"
  | Stdio_client "string option" "string list" "(string \<times> string) list"
  | Initialize client_session
  | List_tools client_session
  | Call_tool client_session string "(string \<times> pyval) list"
  | Logger_error string

record mcp_library =
  loop_is_running :: "event list \<Rightarrow> bool"
  stdio_server_parameters ::
    "string option \<Rightarrow> string list \<Rightarrow> (string \<times> string) list \<Rightarrow> exn option"
  http_client :: "event list \<Rightarrow> string option \<Rightarrow> string option \<Rightarrow> exn + stream \<times> stream"
  stdio_client :: "event list \<Rightarrow> string option \<Rightarrow> string list \<Rightarrow> (string \<times> string) list \<Rightarrow>
                   exn + stream \<times> stream"
  initialize :: "event list \<Rightarrow> client_session \<Rightarrow> exn option"
  list_tools :: "event list \<Rightarrow> client_session \<Rightarrow> exn + tool_descriptor list"
  call_tool :: "event list \<Rightarrow> client_session \<Rightarrow> string \<Rightarrow> (string \<times> pyval) list \<Rightarrow> exn + pyval"

record world =
  events :: "event list"
  next_session_id :: nat

definition emit :: "event \<Rightarrow> world \<Rightarrow> world" where
  "emit ev w = w\<lparr>events := events w @ [ev]\<rparr>"

text \<open>The transport-connection attempts among the events: the calls of the two clients.\<close>

fun is_connect :: "event \<Rightarrow> bool" where
  "is_connect (Http_client u k) = True"
| "is_connect (Stdio_client c a e) = True"
| "is_connect ev = False"

definition connection_attempts :: "world \<Rightarrow> nat" where
  "connection_attempts w = length (filter is_connect (events w))"

text \<open>Truth value of an \<^verbatim>\<open>Optional[str]\<close>: \<^verbatim>\<open>None\<close> and \<^verbatim>\<open>""\<close> are falsy.\<close>

definition truthy :: "string option \<Rightarrow> bool" where
  "truthy v = (case v of None \<Rightarrow> False | Some t \<Rightarrow> t \<noteq> [])"

section \<open>MCPTool\<close>

text \<open>
  \<^verbatim>\<open>FunctionSchema\<close>, \<^verbatim>\<open>JSONSchemaValue\<close> and the base class \<^verbatim>\<open>FunctionTool\<close> come
  from modules outside \<^verbatim>\<open>src/\<close>; the tool keeps what it passes to them.
\<close>

record function_schema =
  fs_name :: string
  fs_description :: string
  fs_parameters :: pyval

record mcp_tool =
  tool_name :: string
  tool_description :: string
  tool_client_session :: client_session
  mcp_schema :: tool_descriptor
  schema :: function_schema

definition MCPTool_init ::
  "string \<Rightarrow> string \<Rightarrow> client_session \<Rightarrow> tool_descriptor \<Rightarrow> mcp_tool" where
  "MCPTool_init nm descr sess sch =
     (let parameters = (case d_parameters sch of None \<Rightarrow> PDict [] | Some v \<Rightarrow> v)
      in \<lparr>tool_name = nm, tool_description = descr, tool_client_session = sess,
          mcp_schema = sch,
          schema = \<lparr>fs_name = nm, fs_description = descr, fs_parameters = parameters\<rparr>\<rparr>)"

text \<open>
  \<^verbatim>\<open>MCPTool._call_mcp_tool\<close>: the \<^verbatim>\<open>except Exception\<close> clause logs and raises an
  \<^verbatim>\<open>AgentsException\<close> from inside the handler, so the caught exception becomes the
  context of the new one. An exception that is not an \<^verbatim>\<open>Exception\<close> is not caught.
\<close>

definition call_mcp_tool ::
  "mcp_library \<Rightarrow> mcp_tool \<Rightarrow> (string \<times> pyval) list \<Rightarrow> world \<Rightarrow> (exn + pyval) \<times> world" where
  "call_mcp_tool lib self kwargs w =
     (let w1 = emit (Call_tool (tool_client_session self) (tool_name self) kwargs) w
      in case call_tool lib (events w) (tool_client_session self) (tool_name self) kwargs of
           Inr result \<Rightarrow> (Inr result, w1)
         | Inl e \<Rightarrow>
             if is_Exception e then
               (Inl (Exn AgentsException
                       (''MCP tool error ('' @ tool_name self @ ''): '' @ exn_str e) (Some e)),
                emit (Logger_error
                        (''Error calling MCP tool '' @ tool_name self @ '': '' @ exn_str e)) w1)
             else (Inl e, w1))"

text \<open>
  \<^verbatim>\<open>create_mcp_tools\<close>: the loop over the advertised tools, with the list \<^verbatim>\<open>tools\<close>
  as accumulator. \<^verbatim>\<open>mcp_tool["name"]\<close> raises \<^verbatim>\<open>KeyError\<close> when the key is absent;
  \<^verbatim>\<open>mcp_tool.get("description", "")\<close> does not.
\<close>

fun create_mcp_tools_loop ::
  "client_session \<Rightarrow> tool_descriptor list \<Rightarrow> mcp_tool list \<Rightarrow> exn + mcp_tool list" where
  "create_mcp_tools_loop sess [] tools = Inr tools"
| "create_mcp_tools_loop sess (mcp_tool # rest) tools =
     (case d_name mcp_tool of
        None \<Rightarrow> Inl (Exn KeyError ([CHR 0x27] @ ''name'' @ [CHR 0x27]) None)
      | Some nm \<Rightarrow>
          create_mcp_tools_loop sess rest
            (tools @ [MCPTool_init nm
                        (case d_description mcp_tool of None \<Rightarrow> [] | Some t \<Rightarrow> t)
                        sess mcp_tool]))"

definition create_mcp_tools ::
  "mcp_library \<Rightarrow> client_session \<Rightarrow> world \<Rightarrow> (exn + mcp_tool list) \<times> world" where
  "create_mcp_tools lib sess w =
     (case list_tools lib (events w) sess of
        Inl e \<Rightarrow> (Inl e, emit (List_tools sess) w)
      | Inr mcp_tools \<Rightarrow> (create_mcp_tools_loop sess mcp_tools [], emit (List_tools sess) w))"

section \<open>MCPToolProvider\<close>

text \<open>
  The attributes \<^verbatim>\<open>_anthropic_api_key\<close>, \<^verbatim>\<open>_servers\<close>, \<^verbatim>\<open>_default_server\<close>
  and \<^verbatim>\<open>_sessions\<close>, and the methods \<^verbatim>\<open>_get_or_create_session\<close> and
  \<^verbatim>\<open>_call_mcp_tool\<close>, keep their names without the leading underscore. After the
  constructor \<^verbatim>\<open>_default_server\<close> is always a string.
\<close>

record mcp_tool_provider =
  anthropic_api_key :: string
  servers :: "server_config list"
  default_server :: string
  sessions :: "string \<rightharpoonup> client_session"

text \<open>
  \<^verbatim>\<open>MCPToolProvider.__init__\<close>. The process environment \<^verbatim>\<open>os.environ\<close> is the
  parameter \<open>environ\<close>. The key check comes first, then the server list, then the
  default; an empty default-server string is falsy and is replaced like \<^verbatim>\<open>None\<close>.
\<close>

definition MCPToolProvider_init ::
  "(string \<rightharpoonup> string) \<Rightarrow> server_config list option \<Rightarrow> string option \<Rightarrow> string option \<Rightarrow>
   exn + mcp_tool_provider" where
  "MCPToolProvider_init environ srvs dflt akey =
     (case (if truthy akey then akey else environ ''ANTHROPIC_API_KEY'') of
        None \<Rightarrow>
          Inl (Exn ValueError ''Anthropic API key must be provided for MCP integration'' None)
      | Some k \<Rightarrow>
          if k = [] then
            Inl (Exn ValueError ''Anthropic API key must be provided for MCP integration'' None)
          else
            (case or_empty srvs of
               [] \<Rightarrow> Inl (Exn ValueError ''At least one MCP server must be configured'' None)
             | s0 # rest \<Rightarrow>
                 Inr \<lparr>anthropic_api_key = k, servers = s0 # rest,
                      default_server =
                        (case dflt of
                           None \<Rightarrow> name s0
                         | Some d \<Rightarrow> (if d = [] then name s0 else d)),
                      sessions = Map.empty\<rparr>))"

text \<open>
  \<^verbatim>\<open>loop.run_until_complete\<close> raises this error, before it runs anything, when the
  calling thread is already inside a running event loop.
\<close>

definition loop_error :: exn where
  "loop_error =
     Exn RuntimeError ''Cannot run the event loop while another loop is running'' None"

text \<open>
  The two branches of \<^verbatim>\<open>if server_config.base_url:\<close> in
  \<^verbatim>\<open>_get_or_create_session\<close>. A client is called, and the call recorded as an
  event, only when \<^verbatim>\<open>run_until_complete\<close> starts it: in the second branch the
  constructor \<^verbatim>\<open>StdioServerParameters\<close> runs first and may raise, and in both
  branches \<^verbatim>\<open>run_until_complete\<close> may raise \<open>loop_error\<close>.
\<close>

definition connect_event :: "server_config \<Rightarrow> event" where
  "connect_event server_config =
     (if truthy (base_url server_config) then
        Http_client (base_url server_config) (api_key server_config)
      else
        Stdio_client (command server_config) (args server_config) (env server_config))"

definition connect ::
  "mcp_library \<Rightarrow> server_config \<Rightarrow> world \<Rightarrow> (exn + stream \<times> stream) \<times> world" where
  "connect lib server_config w =
     (if truthy (base_url server_config) then
        (if loop_is_running lib (events w) then (Inl loop_error, w)
         else (http_client lib (events w) (base_url server_config) (api_key server_config),
               emit (Http_client (base_url server_config) (api_key server_config)) w))
      else
        (case stdio_server_parameters lib (command server_config) (args server_config)
                (env server_config) of
           Some e \<Rightarrow> (Inl e, w)
         | None \<Rightarrow>
             if loop_is_running lib (events w) then (Inl loop_error, w)
             else (stdio_client lib (events w) (command server_config) (args server_config)
                     (env server_config),
                   emit (Stdio_client (command server_config) (args server_config)
                           (env server_config)) w)))"

text \<open>
  \<^verbatim>\<open>MCPToolProvider._get_or_create_session\<close>, in its two parts. The state is the
  provider and the world. \<open>find_session\<close> is the cache check and the search for the
  configuration (lines 165 to 172); \<open>create_session\<close> is the block under
  \<^verbatim>\<open># Create a new session\<close> (lines 174 to 205), whose \<^verbatim>\<open>try\<close> has a
  \<^verbatim>\<open>finally\<close> that closes the event loop and no \<^verbatim>\<open>except\<close>: an exception
  leaves the function as it is. The cache is written after the blocking calls.
\<close>

datatype lookup = Hit client_session | No_config | Miss server_config

definition find_session :: "string \<Rightarrow> mcp_tool_provider \<Rightarrow> lookup" where
  "find_session server_name self =
     (case sessions self server_name of
        Some cached \<Rightarrow> Hit cached
      | None \<Rightarrow>
          (case find (\<lambda>s. name s = server_name) (servers self) of
             None \<Rightarrow> No_config
           | Some server_config \<Rightarrow> Miss server_config))"

definition create_session ::
  "mcp_library \<Rightarrow> string \<Rightarrow> server_config \<Rightarrow> mcp_tool_provider \<times> world \<Rightarrow>
   (exn + client_session) \<times> mcp_tool_provider \<times> world" where
  "create_session lib server_name server_config st =
     (case st of (self, w) \<Rightarrow>
        (case connect lib server_config w of
           (Inl e, w1) \<Rightarrow> (Inl e, self, w1)
         | (Inr (rd, wr), w1) \<Rightarrow>
             (let session = \<lparr>session_id = next_session_id w1,
                              read_stream = rd, write_stream = wr\<rparr>;
                  w2 = w1\<lparr>next_session_id := Suc (next_session_id w1)\<rparr>
              in if loop_is_running lib (events w2) then (Inl loop_error, self, w2)
                 else
                   (case initialize lib (events w2) session of
                      Some e \<Rightarrow> (Inl e, self, emit (Initialize session) w2)
                    | None \<Rightarrow>
                        (Inr session,
                         self\<lparr>sessions := (sessions self)(server_name \<mapsto> session)\<rparr>,
                         emit (Initialize session) w2)))))"

definition get_or_create_session ::
  "mcp_library \<Rightarrow> string \<Rightarrow> mcp_tool_provider \<times> world \<Rightarrow>
   (exn + client_session) \<times> mcp_tool_provider \<times> world" where
  "get_or_create_session lib server_name st =
     (case st of (self, w) \<Rightarrow>
        (case find_session server_name self of
           Hit cached \<Rightarrow> (Inr cached, self, w)
         | No_config \<Rightarrow>
             (Inl (Exn ValueError
                     (''No server configuration found for '' @ server_name) None),
              self, w)
         | Miss server_config \<Rightarrow> create_session lib server_name server_config (self, w)))"

text \<open>
  \<^verbatim>\<open>MCPToolProvider.get_tools_from_server\<close>; its own \<^verbatim>\<open>run_until_complete\<close>
  may raise \<open>loop_error\<close> before \<^verbatim>\<open>create_mcp_tools\<close> starts.
\<close>

definition get_tools_from_server ::
  "mcp_library \<Rightarrow> string option \<Rightarrow> mcp_tool_provider \<times> world \<Rightarrow>
   (exn + mcp_tool list) \<times> mcp_tool_provider \<times> world" where
  "get_tools_from_server lib server_name st =
     (let server_name1 = (case server_name of None \<Rightarrow> default_server (fst st) | Some n \<Rightarrow> n)
      in case get_or_create_session lib server_name1 st of
           (Inl e, self1, w1) \<Rightarrow> (Inl e, self1, w1)
         | (Inr session, self1, w1) \<Rightarrow>
             if loop_is_running lib (events w1) then (Inl loop_error, self1, w1)
             else (case create_mcp_tools lib session w1 of
                     (tools, w2) \<Rightarrow> (tools, self1, w2)))"

text \<open>
  \<^verbatim>\<open>MCPToolProvider.get_all_tools\<close>: the loop over \<^verbatim>\<open>self._servers\<close> with the
  list \<^verbatim>\<open>all_tools\<close> as accumulator; an exception of one iteration ends the call.
\<close>

fun get_all_tools_loop ::
  "mcp_library \<Rightarrow> server_config list \<Rightarrow> mcp_tool list \<Rightarrow> mcp_tool_provider \<times> world \<Rightarrow>
   (exn + mcp_tool list) \<times> mcp_tool_provider \<times> world" where
  "get_all_tools_loop lib [] all_tools st = (Inr all_tools, st)"
| "get_all_tools_loop lib (server # rest) all_tools st =
     (case get_tools_from_server lib (Some (name server)) st of
        (Inl e, st1) \<Rightarrow> (Inl e, st1)
      | (Inr tools, st1) \<Rightarrow> get_all_tools_loop lib rest (all_tools @ tools) st1)"

definition get_all_tools ::
  "mcp_library \<Rightarrow> mcp_tool_provider \<times> world \<Rightarrow>
   (exn + mcp_tool list) \<times> mcp_tool_provider \<times> world" where
  "get_all_tools lib st = get_all_tools_loop lib (servers (fst st)) [] st"

section \<open>Notions used in the statements\<close>

text \<open>
  The session \<^verbatim>\<open>_get_or_create_session\<close> constructs in world \<open>w\<close> from the streams
  \<open>rd\<close> and \<open>wr\<close>, and the world once the connection is open and the session object
  exists.
\<close>

definition new_session :: "world \<Rightarrow> stream \<Rightarrow> stream \<Rightarrow> client_session" where
  "new_session w rd wr =
     \<lparr>session_id = next_session_id w, read_stream = rd, write_stream = wr\<rparr>"

definition after_connect :: "server_config \<Rightarrow> world \<Rightarrow> world" where
  "after_connect cfg w =
     (emit (connect_event cfg) w)\<lparr>next_session_id := Suc (next_session_id w)\<rparr>"

text \<open>
  Nothing stops the construction for \<open>cfg\<close> in world \<open>w\<close> before its client is
  called.
\<close>

definition reaches_client :: "mcp_library \<Rightarrow> server_config \<Rightarrow> world \<Rightarrow> bool" where
  "reaches_client lib cfg w =
     (\<not> loop_is_running lib (events w) \<and>
      (truthy (base_url cfg) \<or>
       stdio_server_parameters lib (command cfg) (args cfg) (env cfg) = None))"

text \<open>The client of the branch taken for \<open>cfg\<close>, asked in world \<open>w\<close>.\<close>

definition client_answer ::
  "mcp_library \<Rightarrow> server_config \<Rightarrow> world \<Rightarrow> exn + stream \<times> stream" where
  "client_answer lib cfg w =
     (if truthy (base_url cfg) then http_client lib (events w) (base_url cfg) (api_key cfg)
      else stdio_client lib (events w) (command cfg) (args cfg) (env cfg))"

text \<open>
  Callers of \<^verbatim>\<open>_get_or_create_session\<close> that run at the same time. The method
  holds no lock and waits for nothing, and between its cache check and its cache write
  it blocks in \<^verbatim>\<open>run_until_complete\<close>, where another thread can run. A caller
  is therefore taken in two steps: \<open>find_session\<close>, then \<open>create_session\<close>. A
  schedule names, step by step, the caller that runs next.
\<close>

datatype caller = Start | Missed server_config | Returned "exn + client_session"

fun caller_step ::
  "mcp_library \<Rightarrow> string \<Rightarrow> caller \<Rightarrow> mcp_tool_provider \<times> world \<Rightarrow>
   caller \<times> mcp_tool_provider \<times> world" where
  "caller_step lib n Start st =
     (case find_session n (fst st) of
        Hit cached \<Rightarrow> (Returned (Inr cached), st)
      | No_config \<Rightarrow>
          (Returned (Inl (Exn ValueError (''No server configuration found for '' @ n) None)),
           st)
      | Miss cfg \<Rightarrow> (Missed cfg, st))"
| "caller_step lib n (Missed cfg) st =
     (case create_session lib n cfg st of (r, st1) \<Rightarrow> (Returned r, st1))"
| "caller_step lib n (Returned r) st = (Returned r, st)"

fun run_schedule ::
  "mcp_library \<Rightarrow> string \<Rightarrow> nat list \<Rightarrow> caller list \<Rightarrow> mcp_tool_provider \<times> world \<Rightarrow>
   caller list \<times> mcp_tool_provider \<times> world" where
  "run_schedule lib n [] cs st = (cs, st)"
| "run_schedule lib n (i # rest) cs st =
     (if i < length cs then
        (case caller_step lib n (cs ! i) st of
           (c, st1) \<Rightarrow> run_schedule lib n rest (cs[i := c]) st1)
      else run_schedule lib n rest cs st)"

text \<open>
  What a client of the provider can do with it, and the state after a sequence of such
  requests. The states a provider really gets into are those reached this way from a
  freshly constructed provider.
\<close>

datatype request =
    Get_or_create_session string
  | Get_tools_from_server "string option"
  | Get_all_tools
  | Call_mcp_tool mcp_tool "(string \<times> pyval) list"

fun perform ::
  "mcp_library \<Rightarrow> request \<Rightarrow> mcp_tool_provider \<times> world \<Rightarrow> mcp_tool_provider \<times> world" where
  "perform lib (Get_or_create_session n) st = snd (get_or_create_session lib n st)"
| "perform lib (Get_tools_from_server n) st = snd (get_tools_from_server lib n st)"
| "perform lib Get_all_tools st = snd (get_all_tools lib st)"
| "perform lib (Call_mcp_tool t kwargs) st =
     (fst st, snd (call_mcp_tool lib t kwargs (snd st)))"

fun perform_all ::
  "mcp_library \<Rightarrow> request list \<Rightarrow> mcp_tool_provider \<times> world \<Rightarrow> mcp_tool_provider \<times> world" where
  "perform_all lib [] st = st"
| "perform_all lib (r # rs) st = perform_all lib rs (perform lib r st)"

text \<open>
  What the requests keep: the configuration of the provider \<open>self0\<close> they started
  from, and a cache that holds sessions for configured names only.
\<close>

definition registry_inv :: "mcp_tool_provider \<Rightarrow> mcp_tool_provider \<Rightarrow> bool" where
  "registry_inv self0 self =
     (servers self = servers self0 \<and> default_server self = default_server self0 \<and>
      dom (sessions self) \<subseteq> name ` set (servers self0))"

text \<open>
  Tool \<open>t\<close> is the adapted form of the advertised descriptor \<open>d\<close>, bound to session
  \<open>sess\<close>.
\<close>

definition adapted :: "client_session \<Rightarrow> mcp_tool \<Rightarrow> tool_descriptor \<Rightarrow> bool" where
  "adapted sess t d =
     (d_name d = Some (tool_name t) \<and> tool_client_session t = sess \<and> mcp_schema t = d \<and>
      t = MCPTool_init (tool_name t)
            (case d_description d of None \<Rightarrow> [] | Some x \<Rightarrow> x) sess d)"

text \<open>An API key is available: as argument, or else in the environment.\<close>

definition key_given :: "(string \<rightharpoonup> string) \<Rightarrow> string option \<Rightarrow> bool" where
  "key_given environ akey =
     truthy (if truthy akey then akey else environ ''ANTHROPIC_API_KEY'')"

text \<open>
  The specification's reading of listing all capabilities: go through the servers in
  the given order, ask each for its adapted capabilities, keep one list per server, and
  stop with the error of the first server that fails.
\<close>

fun tools_per_server ::
  "mcp_library \<Rightarrow> server_config list \<Rightarrow> mcp_tool_provider \<times> world \<Rightarrow>
   (exn + mcp_tool list list) \<times> mcp_tool_provider \<times> world" where
  "tools_per_server lib [] st = (Inr [], st)"
| "tools_per_server lib (server # rest) st =
     (case get_tools_from_server lib (Some (name server)) st of
        (Inl e, st1) \<Rightarrow> (Inl e, st1)
      | (Inr tools, st1) \<Rightarrow>
          (case tools_per_server lib rest st1 of
             (Inl e, st2) \<Rightarrow> (Inl e, st2)
           | (Inr tss, st2) \<Rightarrow> (Inr (tools # tss), st2)))"

section \<open>A test scenario\<close>

text \<open>
  Two servers: \<open>say\<close> is a subprocess that always starts, \<open>fetch\<close> is a network
  server whose first connection attempt is refused and whose later attempts succeed.
  Every session advertises one tool, \<open>echo\<close>, which returns its argument \<open>text\<close> and
  fails without it.
\<close>

definition say_server :: server_config where
  "say_server = \<lparr>name = ''say'', base_url = None, api_key = None,
                  command = Some ''python'', args = [''say_server.py''], env = []\<rparr>"

definition fetch_server :: server_config where
  "fetch_server = \<lparr>name = ''fetch'', base_url = Some ''http://localhost:9000'',
                    api_key = None, command = None, args = [], env = []\<rparr>"

definition refused :: exn where
  "refused = Exn (Foreign ''ConnectionError'' True) ''refused'' None"

definition no_text :: exn where
  "no_text = Exn (Foreign ''McpError'' True) ''no text'' None"

definition echo_descriptor :: tool_descriptor where
  "echo_descriptor = \<lparr>d_name = Some ''echo'', d_description = None, d_parameters = None\<rparr>"

definition test_library :: mcp_library where
  "test_library =
     \<lparr>loop_is_running = (\<lambda>evs. False),
      stdio_server_parameters = (\<lambda>c a e. None),
      http_client = (\<lambda>evs u k. if Http_client u k \<in> set evs then Inr (2, 3) else Inl refused),
      stdio_client = (\<lambda>evs c a e. Inr (0, 1)),
      initialize = (\<lambda>evs s. None),
      list_tools = (\<lambda>evs s. Inr [echo_descriptor]),
      call_tool = (\<lambda>evs s nm kwargs.
         case map_of kwargs ''text'' of Some v \<Rightarrow> Inr v | None \<Rightarrow> Inl no_text)\<rparr>"

definition test_provider :: mcp_tool_provider where
  "test_provider = \<lparr>anthropic_api_key = ''k'', servers = [say_server, fetch_server],
                     default_server = ''say'', sessions = Map.empty\<rparr>"

definition world0 :: world where
  "world0 = \<lparr>events = [], next_session_id = 0\<rparr>"

definition say_session :: client_session where
  "say_session = \<lparr>session_id = 0, read_stream = 0, write_stream = 1\<rparr>"

definition echo_tool :: mcp_tool where
  "echo_tool = MCPTool_init ''echo'' [] say_session echo_descriptor"

text \<open>The provider once the session of \<open>say\<close> is cached, and the worlds on the way.\<close>

definition say_provider :: mcp_tool_provider where
  "say_provider = \<lparr>anthropic_api_key = ''k'', servers = [say_server, fetch_server],
                    default_server = ''say'', sessions = [''say'' \<mapsto> say_session]\<rparr>"

definition world_say_ready :: world where
  "world_say_ready =
     \<lparr>events = [Stdio_client (Some ''python'') [''say_server.py''] [], Initialize say_session],
      next_session_id = 1\<rparr>"

definition world_say_listed :: world where
  "world_say_listed =
     \<lparr>events = [Stdio_client (Some ''python'') [''say_server.py''] [], Initialize say_session,
                List_tools say_session],
      next_session_id = 1\<rparr>"

text \<open>Two callers for \<open>say\<close> that both miss the cache: the second session.\<close>

definition second_session :: client_session where
  "second_session = \<lparr>session_id = 1, read_stream = 0, write_stream = 1\<rparr>"

definition second_provider :: mcp_tool_provider where
  "second_provider = \<lparr>anthropic_api_key = ''k'', servers = [say_server, fetch_server],
                       default_server = ''say'', sessions = [''say'' \<mapsto> second_session]\<rparr>"

definition world_two_sessions :: world where
  "world_two_sessions =
     \<lparr>events = [Stdio_client (Some ''python'') [''say_server.py''] [], Initialize say_session,
                Stdio_client (Some ''python'') [''say_server.py''] [],
                Initialize second_session],
      next_session_id = 2\<rparr>"

definition world_fetch_refused :: world where
  "world_fetch_refused =
     \<lparr>events = [Http_client (Some ''http://localhost:9000'') None], next_session_id = 0\<rparr>"

definition world_all_failed :: world where
  "world_all_failed =
     \<lparr>events = [Stdio_client (Some ''python'') [''say_server.py''] [], Initialize say_session,
                List_tools say_session, Http_client (Some ''http://localhost:9000'') None],
      next_session_id = 1\<rparr>"

section \<open>Properties of ServerConfig\<close>

lemma or_empty_simps:
  "or_empty None = []"
  "or_empty (Some xs) = xs"
  by (simp_all add: or_empty_def)

lemma ServerConfig_init_neither:
  "ServerConfig_init nm None akey None as ev =
     Inl (Exn ValueError
            (''Server '' @ nm @ '' must have either base_url or command specified'') None)"
  by (simp add: ServerConfig_init_def)

lemma ServerConfig_init_both:
  "ServerConfig_init nm (Some u) akey (Some c) as ev =
     Inl (Exn ValueError
            (''Server '' @ nm @ '' cannot have both base_url and command specified'') None)"
  by (simp add: ServerConfig_init_def)

lemma ServerConfig_init_one:
  "(burl = None) \<noteq> (cmd = None) \<Longrightarrow>
   ServerConfig_init nm burl akey cmd as ev =
     Inr \<lparr>name = nm, base_url = burl, api_key = akey, command = cmd,
          args = or_empty as, env = or_empty ev\<rparr>"
  by (auto simp: ServerConfig_init_def)

lemma ServerConfig_init_Inr:
  "ServerConfig_init nm burl akey cmd as ev = Inr cfg \<Longrightarrow>
   (burl = None) \<noteq> (cmd = None) \<and>
   cfg = \<lparr>name = nm, base_url = burl, api_key = akey, command = cmd,
          args = or_empty as, env = or_empty ev\<rparr>"
  by (auto simp: ServerConfig_init_def split: if_splits)

text \<open>
  Claim C4, as stated: a successful construction returns an immutable descriptor. The
  descriptor is an instance of a plain class. After the construction from the example
  script, the assignment \<^verbatim>\<open>cfg.command = None\<close> goes through and leaves the same
  object with neither transport set, a state the constructor itself rejects.
\<close>

theorem ServerConfig_mutable_counterexample:
  "ServerConfig_init ''say'' None None (Some ''python'') None None =
     Inr \<lparr>name = ''say'', base_url = None, api_key = None, command = Some ''python'',
          args = [], env = []\<rparr> \<and>
   ServerConfig_setattr
     \<lparr>name = ''say'', base_url = None, api_key = None, command = Some ''python'',
      args = [], env = []\<rparr> (Set_command None) =
     Inr \<lparr>name = ''say'', base_url = None, api_key = None, command = None,
          args = [], env = []\<rparr>"
  by (simp add: ServerConfig_init_def or_empty_def)

text \<open>
  Claim C4, amended. Constructing a ServerConfig with both a base_url and a command, or
  with neither, fails with the configuration error of the source (a \<^verbatim>\<open>ValueError\<close>)
  whose message contains the server name; the constructor is a function of its arguments
  alone, so nothing else happens. With exactly one of the two the construction succeeds
  and every attribute of the descriptor is set: the name, the three optional values as
  given, and \<open>args\<close> and \<open>env\<close> as given or empty. The descriptor is not immutable:
  an assignment to any of its attributes succeeds.
\<close>

theorem ServerConfig_init_validation:
  "(burl = None \<and> cmd = None \<longrightarrow>
      ServerConfig_init nm burl akey cmd as ev =
        Inl (Exn ValueError
               (''Server '' @ nm @ '' must have either base_url or command specified'') None)) \<and>
   (burl \<noteq> None \<and> cmd \<noteq> None \<longrightarrow>
      ServerConfig_init nm burl akey cmd as ev =
        Inl (Exn ValueError
               (''Server '' @ nm @ '' cannot have both base_url and command specified'') None)) \<and>
   sublist nm (''Server '' @ nm @ '' must have either base_url or command specified'') \<and>
   sublist nm (''Server '' @ nm @ '' cannot have both base_url and command specified'') \<and>
   ((burl = None) \<noteq> (cmd = None) \<longrightarrow>
      ServerConfig_init nm burl akey cmd as ev =
        Inr \<lparr>name = nm, base_url = burl, api_key = akey, command = cmd,
             args = or_empty as, env = or_empty ev\<rparr>) \<and>
   (\<exists>cfg'. ServerConfig_setattr cfg a = Inr cfg')"
proof (intro conjI impI)
  assume "burl = None \<and> cmd = None"
  then show "ServerConfig_init nm burl akey cmd as ev =
        Inl (Exn ValueError
               (''Server '' @ nm @ '' must have either base_url or command specified'') None)"
    using ServerConfig_init_neither [of nm akey as ev] by simp
next
  assume "burl \<noteq> None \<and> cmd \<noteq> None"
  then obtain u c where "burl = Some u" and "cmd = Some c" by auto
  then show "ServerConfig_init nm burl akey cmd as ev =
        Inl (Exn ValueError
               (''Server '' @ nm @ '' cannot have both base_url and command specified'') None)"
    using ServerConfig_init_both [of nm u akey c as ev] by simp
next
  show "sublist nm (''Server '' @ nm @ '' must have either base_url or command specified'')"
    by (rule sublist_appendI)
next
  show "sublist nm (''Server '' @ nm @ '' cannot have both base_url and command specified'')"
    by (rule sublist_appendI)
next
  assume "(burl = None) \<noteq> (cmd = None)"
  then show "ServerConfig_init nm burl akey cmd as ev =
        Inr \<lparr>name = nm, base_url = burl, api_key = akey, command = cmd,
             args = or_empty as, env = or_empty ev\<rparr>"
    by (rule ServerConfig_init_one)
next
  show "\<exists>cfg'. ServerConfig_setattr cfg a = Inr cfg'"
    by (cases a) simp_all
qed

theorem ServerConfig_init_validation_witness:
  "ServerConfig_init ''say-service'' (Some ''http://localhost:8000'') None
       (Some ''python'') None None =
     Inl (Exn ValueError
            ''Server say-service cannot have both base_url and command specified'' None) \<and>
   ServerConfig_init ''say-service'' None None None None None =
     Inl (Exn ValueError
            ''Server say-service must have either base_url or command specified'' None) \<and>
   ServerConfig_init ''say-service'' None None (Some ''python'')
       (Some [''examples/mcp/say_server.py'']) None =
     Inr \<lparr>name = ''say-service'', base_url = None, api_key = None,
          command = Some ''python'', args = [''examples/mcp/say_server.py''], env = []\<rparr>"
  using ServerConfig_init_validation
          [of "Some ''http://localhost:8000''" "Some ''python''" "''say-service''" None None None]
        ServerConfig_init_validation
          [of None None "''say-service''" None None None]
        ServerConfig_init_validation
          [of None "Some ''python''" "''say-service''" None
              "Some [''examples/mcp/say_server.py'']" None]
  by (simp add: or_empty_def)

text \<open>
  Claim C9, as stated: a successfully constructed ServerConfig has a non-empty name.
  The constructor never looks at the name: with the empty string and a command it
  succeeds.
\<close>

theorem ServerConfig_init_empty_name_counterexample:
  "ServerConfig_init [] None None (Some ''python'') None None =
     Inr \<lparr>name = [], base_url = None, api_key = None, command = Some ''python'',
          args = [], env = []\<rparr>"
  by (simp add: ServerConfig_init_def or_empty_def)

text \<open>
  Claim C9, amended. Every successfully constructed ServerConfig has exactly one of
  base_url and command set (not \<^verbatim>\<open>None\<close>), and its name is the name it was given,
  whatever that is; the name is not validated.
\<close>

theorem ServerConfig_init_invariant:
  "ServerConfig_init nm burl akey cmd as ev = Inr cfg \<Longrightarrow>
   (base_url cfg = None) \<noteq> (command cfg = None) \<and> name cfg = nm"
  by (auto dest: ServerConfig_init_Inr)

theorem ServerConfig_init_invariant_witness:
  "ServerConfig_init ''fetch-service'' (Some ''http://localhost:9000'') (Some ''k'')
       None None None =
     Inr \<lparr>name = ''fetch-service'', base_url = Some ''http://localhost:9000'',
          api_key = Some ''k'', command = None, args = [], env = []\<rparr> \<and>
   (base_url \<lparr>name = ''fetch-service'', base_url = Some ''http://localhost:9000'',
          api_key = Some ''k'', command = None, args = [], env = []\<rparr> = None) \<noteq>
   (command \<lparr>name = ''fetch-service'', base_url = Some ''http://localhost:9000'',
          api_key = Some ''k'', command = None, args = [], env = []\<rparr> = None) \<and>
   name \<lparr>name = ''fetch-service'', base_url = Some ''http://localhost:9000'',
          api_key = Some ''k'', command = None, args = [], env = []\<rparr> = ''fetch-service''"
proof -
  have ok: "ServerConfig_init ''fetch-service'' (Some ''http://localhost:9000'') (Some ''k'')
       None None None =
     Inr \<lparr>name = ''fetch-service'', base_url = Some ''http://localhost:9000'',
          api_key = Some ''k'', command = None, args = [], env = []\<rparr>"
    by (simp add: ServerConfig_init_def or_empty_def)
  from ServerConfig_init_invariant [OF ok] ok show ?thesis by simp
qed


section \<open>Properties of the bridge\<close>

subsection \<open>MCPTool\<close>

text \<open>
  Claim C1. Whenever the session's \<open>call_tool\<close> raises an error (an instance of
  \<^verbatim>\<open>Exception\<close>, which is what the handler's \<^verbatim>\<open>except Exception\<close> matches),
  \<open>_call_mcp_tool\<close> raises an \<^verbatim>\<open>AgentsException\<close> instead: its message contains the
  tool's name and the text of the original error, and the original error is its context.
  No error that leaves \<open>_call_mcp_tool\<close> is of another class than
  \<^verbatim>\<open>AgentsException\<close>.
\<close>

theorem call_mcp_tool_wraps_errors:
  "(\<forall>e. call_tool lib (events w) (tool_client_session self) (tool_name self) kwargs = Inl e \<and>
        is_Exception e \<longrightarrow>
        fst (call_mcp_tool lib self kwargs w) =
          Inl (Exn AgentsException
                 (''MCP tool error ('' @ tool_name self @ ''): '' @ exn_str e) (Some e)) \<and>
        sublist (tool_name self)
          (''MCP tool error ('' @ tool_name self @ ''): '' @ exn_str e) \<and>
        sublist (exn_str e)
          (''MCP tool error ('' @ tool_name self @ ''): '' @ exn_str e)) \<and>
   (\<forall>x. fst (call_mcp_tool lib self kwargs w) = Inl x \<and> is_Exception x \<longrightarrow>
        exn_cls x = AgentsException)"
proof (intro conjI allI impI)
  fix e
  assume "call_tool lib (events w) (tool_client_session self) (tool_name self) kwargs = Inl e \<and>
        is_Exception e"
  then show "fst (call_mcp_tool lib self kwargs w) =
          Inl (Exn AgentsException
                 (''MCP tool error ('' @ tool_name self @ ''): '' @ exn_str e) (Some e))"
    by (simp add: call_mcp_tool_def Let_def)
  have "sublist (tool_name self)
          (''MCP tool error ('' @ tool_name self @ (''): '' @ exn_str e))"
    by (rule sublist_appendI)
  then show "sublist (tool_name self)
          (''MCP tool error ('' @ tool_name self @ ''): '' @ exn_str e)"
    by simp
  have "sublist (exn_str e)
          ((''MCP tool error ('' @ tool_name self @ ''): '') @ exn_str e)"
    by (rule sublist_append_leftI)
  then show "sublist (exn_str e)
          (''MCP tool error ('' @ tool_name self @ ''): '' @ exn_str e)"
    by simp
next
  fix x
  assume "fst (call_mcp_tool lib self kwargs w) = Inl x \<and> is_Exception x"
  then show "exn_cls x = AgentsException"
    by (auto simp: call_mcp_tool_def Let_def split: sum.splits if_splits)
qed

theorem call_mcp_tool_wraps_errors_witness:
  "call_tool test_library (events world0) (tool_client_session echo_tool)
       (tool_name echo_tool) [] = Inl no_text \<and>
   is_Exception no_text \<and>
   fst (call_mcp_tool test_library echo_tool [] world0) =
     Inl (Exn AgentsException ''MCP tool error (echo): no text''
            (Some (Exn (Foreign ''McpError'' True) ''no text'' None)))"
proof -
  have h: "call_tool test_library (events world0) (tool_client_session echo_tool)
       (tool_name echo_tool) [] = Inl no_text \<and> is_Exception no_text"
    by (simp add: test_library_def no_text_def)
  from call_mcp_tool_wraps_errors [of test_library world0 echo_tool "[]"] h
  have "fst (call_mcp_tool test_library echo_tool [] world0) =
          Inl (Exn AgentsException
                 (''MCP tool error ('' @ tool_name echo_tool @ ''): '' @ exn_str no_text)
                 (Some no_text))"
    by blast
  with h show ?thesis
    by (simp add: echo_tool_def MCPTool_init_def no_text_def)
qed

subsection \<open>The session registry\<close>

lemmas registry_defs =
  get_or_create_session_def find_session_def create_session_def connect_def
  connect_event_def truthy_def emit_def Let_def

lemmas scenario_defs =
  test_library_def test_provider_def world0_def say_server_def fetch_server_def
  say_session_def say_provider_def world_say_ready_def world_say_listed_def
  world_fetch_refused_def world_all_failed_def refused_def

lemma get_or_create_session_cached:
  "sessions self n = Some s \<Longrightarrow> get_or_create_session lib n (self, w) = (Inr s, self, w)"
  by (simp add: get_or_create_session_def find_session_def)

lemma get_or_create_session_unknown:
  "sessions self n = None \<Longrightarrow> find (\<lambda>c. name c = n) (servers self) = None \<Longrightarrow>
   get_or_create_session lib n (self, w) =
     (Inl (Exn ValueError (''No server configuration found for '' @ n) None), self, w)"
  by (simp add: get_or_create_session_def find_session_def)

lemma get_or_create_session_miss:
  "sessions self n = None \<Longrightarrow> find (\<lambda>c. name c = n) (servers self) = Some cfg \<Longrightarrow>
   get_or_create_session lib n (self, w) = create_session lib n cfg (self, w)"
  by (simp add: get_or_create_session_def find_session_def)

lemma is_connect_connect_event: "is_connect (connect_event cfg)"
  by (simp add: connect_event_def)

lemma connection_attempts_emit:
  "connection_attempts (emit ev w) =
     (if is_connect ev then Suc (connection_attempts w) else connection_attempts w)"
  by (simp add: connection_attempts_def emit_def)

lemma connection_attempts_after_connect:
  "connection_attempts (after_connect cfg w) = Suc (connection_attempts w)"
  by (simp add: connection_attempts_def after_connect_def emit_def is_connect_connect_event)

text \<open>The construction either stops before its client is called, or calls it.\<close>

lemma connect_cases:
  obtains
    (stopped) e where "\<not> reaches_client lib cfg w" "connect lib cfg w = (Inl e, w)"
      "e = loop_error \<and> loop_is_running lib (events w) \<or>
       stdio_server_parameters lib (command cfg) (args cfg) (env cfg) = Some e"
  | (called) "reaches_client lib cfg w"
      "connect lib cfg w = (client_answer lib cfg w, emit (connect_event cfg) w)"
proof (cases "reaches_client lib cfg w")
  case True
  then have "connect lib cfg w = (client_answer lib cfg w, emit (connect_event cfg) w)"
    by (auto simp: reaches_client_def connect_def client_answer_def connect_event_def)
  with True called show ?thesis by blast
next
  case False
  then have "\<exists>e. connect lib cfg w = (Inl e, w) \<and>
      (e = loop_error \<and> loop_is_running lib (events w) \<or>
       stdio_server_parameters lib (command cfg) (args cfg) (env cfg) = Some e)"
    by (auto simp: reaches_client_def connect_def split: option.splits)
  with False stopped show ?thesis by blast
qed

text \<open>Every way \<open>create_session\<close> can end.\<close>

lemma create_session_cases:
  obtains
    (stopped) e where "\<not> reaches_client lib cfg w"
      "create_session lib n cfg (self, w) = (Inl e, self, w)"
      "e = loop_error \<and> loop_is_running lib (events w) \<or>
       stdio_server_parameters lib (command cfg) (args cfg) (env cfg) = Some e"
  | (refused) e where "reaches_client lib cfg w" "client_answer lib cfg w = Inl e"
      "create_session lib n cfg (self, w) = (Inl e, self, emit (connect_event cfg) w)"
  | (no_loop) rd wr where "reaches_client lib cfg w"
      "client_answer lib cfg w = Inr (rd, wr)"
      "loop_is_running lib (events w @ [connect_event cfg])"
      "create_session lib n cfg (self, w) = (Inl loop_error, self, after_connect cfg w)"
  | (initialize_fails) rd wr e where "reaches_client lib cfg w"
      "client_answer lib cfg w = Inr (rd, wr)"
      "initialize lib (events w @ [connect_event cfg]) (new_session w rd wr) = Some e"
      "create_session lib n cfg (self, w) =
         (Inl e, self, emit (Initialize (new_session w rd wr)) (after_connect cfg w))"
  | (created) rd wr where "reaches_client lib cfg w"
      "client_answer lib cfg w = Inr (rd, wr)"
      "initialize lib (events w @ [connect_event cfg]) (new_session w rd wr) = None"
      "create_session lib n cfg (self, w) =
         (Inr (new_session w rd wr),
          self\<lparr>sessions := (sessions self)(n \<mapsto> new_session w rd wr)\<rparr>,
          emit (Initialize (new_session w rd wr)) (after_connect cfg w))"
proof (cases rule: connect_cases [of lib cfg w])
  case (stopped e)
  then have "create_session lib n cfg (self, w) = (Inl e, self, w)"
    by (simp add: create_session_def)
  with stopped that(1) show ?thesis by blast
next
  case called
  show ?thesis
  proof (cases "client_answer lib cfg w")
    case (Inl e)
    with called have "create_session lib n cfg (self, w) =
        (Inl e, self, emit (connect_event cfg) w)"
      by (simp add: create_session_def)
    with called Inl that(2) show ?thesis by blast
  next
    case (Inr p)
    obtain rd wr where p: "p = (rd, wr)" by (cases p)
    show ?thesis
    proof (cases "loop_is_running lib (events w @ [connect_event cfg])")
      case True
      with called Inr p have "create_session lib n cfg (self, w) =
          (Inl loop_error, self, after_connect cfg w)"
        by (simp add: create_session_def after_connect_def emit_def Let_def)
      with called Inr p True that(3) show ?thesis by blast
    next
      case False
      show ?thesis
      proof (cases "initialize lib (events w @ [connect_event cfg]) (new_session w rd wr)")
        case None
        with called Inr p False have "create_session lib n cfg (self, w) =
         (Inr (new_session w rd wr),
          self\<lparr>sessions := (sessions self)(n \<mapsto> new_session w rd wr)\<rparr>,
          emit (Initialize (new_session w rd wr)) (after_connect cfg w))"
          by (simp add: create_session_def after_connect_def new_session_def emit_def Let_def)
        with called Inr p None that(5) show ?thesis by blast
      next
        case (Some e)
        with called Inr p False have "create_session lib n cfg (self, w) =
         (Inl e, self, emit (Initialize (new_session w rd wr)) (after_connect cfg w))"
          by (simp add: create_session_def after_connect_def new_session_def emit_def Let_def)
        with called Inr p Some that(4) show ?thesis by blast
      qed
    qed
  qed
qed

lemma create_session_attempts:
  assumes "reaches_client lib cfg w"
  shows "connection_attempts (snd (snd (create_session lib n cfg (self, w)))) =
         Suc (connection_attempts w)"
  by (cases rule: create_session_cases [of lib cfg w n self])
     (use assms in \<open>simp_all add: connection_attempts_emit connection_attempts_after_connect
        is_connect_connect_event\<close>)

lemma create_session_Inl:
  assumes "create_session lib n cfg (self, w) = (Inl e, self1, w1)"
  shows "self1 = self \<and>
         (e = loop_error \<and>
            (loop_is_running lib (events w) \<or>
             loop_is_running lib (events w @ [connect_event cfg])) \<or>
          stdio_server_parameters lib (command cfg) (args cfg) (env cfg) = Some e \<or>
          client_answer lib cfg w = Inl e \<or>
          (\<exists>rd wr. client_answer lib cfg w = Inr (rd, wr) \<and>
             initialize lib (events w @ [connect_event cfg]) (new_session w rd wr) = Some e))"
  by (cases rule: create_session_cases [of lib cfg w n self]) (use assms in auto)

lemma create_session_Inr:
  assumes "create_session lib n cfg (self, w) = (Inr s, self1, w1)"
  shows "reaches_client lib cfg w \<and>
         client_answer lib cfg w = Inr (read_stream s, write_stream s) \<and>
         initialize lib (events w @ [connect_event cfg]) s = None \<and>
         events w1 = events w @ [connect_event cfg, Initialize s] \<and>
         sessions self1 = (sessions self)(n \<mapsto> s)"
  by (cases rule: create_session_cases [of lib cfg w n self])
     (use assms in \<open>auto simp: new_session_def emit_def after_connect_def\<close>)

lemma get_or_create_session_caches:
  "get_or_create_session lib n (self, w) = (Inr s, self1, w1) \<Longrightarrow> sessions self1 n = Some s"
proof (cases "sessions self n")
  case None
  assume g: "get_or_create_session lib n (self, w) = (Inr s, self1, w1)"
  show ?thesis
  proof (cases "find (\<lambda>c. name c = n) (servers self)")
    case N: None
    with None g show ?thesis by (simp add: get_or_create_session_unknown)
  next
    case (Some cfg)
    with None g have "create_session lib n cfg (self, w) = (Inr s, self1, w1)"
      by (simp add: get_or_create_session_miss)
    from create_session_Inr [OF this] show ?thesis by simp
  qed
next
  case (Some c)
  assume "get_or_create_session lib n (self, w) = (Inr s, self1, w1)"
  with Some show ?thesis by (simp add: get_or_create_session_cached)
qed

text \<open>
  Claim C3. When a call of \<open>_get_or_create_session\<close> for a name returns a session, the
  next call for that name returns the same session instance and changes neither the
  provider nor the world: no client is called, so there is no second connection
  attempt. If the name was not cached before the first call, that call found the
  configuration, opened the transport, initialised the new session and stored it under
  the name.
\<close>

theorem get_or_create_session_twice:
  assumes "get_or_create_session lib n (self, w) = (Inr s, self1, w1)"
  shows "get_or_create_session lib n (self1, w1) = (Inr s, self1, w1) \<and>
         connection_attempts (snd (snd (get_or_create_session lib n (self1, w1)))) =
           connection_attempts w1 \<and>
         (sessions self n = None \<longrightarrow>
            (\<exists>cfg. find (\<lambda>c. name c = n) (servers self) = Some cfg \<and>
                   reaches_client lib cfg w \<and>
                   client_answer lib cfg w = Inr (read_stream s, write_stream s) \<and>
                   initialize lib (events w @ [connect_event cfg]) s = None \<and>
                   events w1 = events w @ [connect_event cfg, Initialize s] \<and>
                   sessions self1 = (sessions self)(n \<mapsto> s)))"
proof -
  from assms have "sessions self1 n = Some s"
    by (rule get_or_create_session_caches)
  then have again: "get_or_create_session lib n (self1, w1) = (Inr s, self1, w1)"
    by (rule get_or_create_session_cached)
  have fresh: "\<exists>cfg. find (\<lambda>c. name c = n) (servers self) = Some cfg \<and>
                   reaches_client lib cfg w \<and>
                   client_answer lib cfg w = Inr (read_stream s, write_stream s) \<and>
                   initialize lib (events w @ [connect_event cfg]) s = None \<and>
                   events w1 = events w @ [connect_event cfg, Initialize s] \<and>
                   sessions self1 = (sessions self)(n \<mapsto> s)"
    if None: "sessions self n = None"
  proof (cases "find (\<lambda>c. name c = n) (servers self)")
    case N: None
    with None assms show ?thesis by (simp add: get_or_create_session_unknown)
  next
    case (Some cfg)
    with None assms have "create_session lib n cfg (self, w) = (Inr s, self1, w1)"
      by (simp add: get_or_create_session_miss)
    from create_session_Inr [OF this] Some show ?thesis by simp
  qed
  from again fresh show ?thesis by simp
qed

theorem get_or_create_session_twice_witness:
  "get_or_create_session test_library ''say'' (test_provider, world0) =
     (Inr say_session, say_provider, world_say_ready) \<and>
   get_or_create_session test_library ''say'' (say_provider, world_say_ready) =
     (Inr say_session, say_provider, world_say_ready) \<and>
   connection_attempts world0 = 0 \<and> connection_attempts world_say_ready = 1"
proof -
  have first: "get_or_create_session test_library ''say'' (test_provider, world0) =
     (Inr say_session, say_provider, world_say_ready)"
    by (simp add: registry_defs scenario_defs)
  from get_or_create_session_twice [OF first] first show ?thesis
    by (simp add: connection_attempts_def world0_def world_say_ready_def)
qed

text \<open>
  Claim C5, as stated: a failure to construct the session reaches the caller wrapped
  with the server name. In the test scenario the first connection to \<open>fetch\<close> is
  refused, and the caller gets the very exception the network client raised: its class is
  the library's, it has no context, and its message does not contain the server name.
\<close>

theorem get_or_create_session_failure_counterexample:
  "get_or_create_session test_library ''fetch'' (test_provider, world0) =
     (Inl (Exn (Foreign ''ConnectionError'' True) ''refused'' None),
      test_provider, world_fetch_refused) \<and>
   http_client test_library (events world0) (base_url fetch_server) (api_key fetch_server) =
     Inl (Exn (Foreign ''ConnectionError'' True) ''refused'' None) \<and>
   \<not> sublist ''fetch'' ''refused''"
proof -
  have "\<not> sublist ''fetch'' ''refused''"
    by (simp add: sublist_Cons_right prefix_Cons)
  then show ?thesis
    by (simp add: registry_defs scenario_defs)
qed

text \<open>
  Claim C5, amended. If a call of \<open>_get_or_create_session\<close> for a configured name
  fails, the caller gets the exception unchanged, from wherever the construction raised
  it: the \<open>RuntimeError\<close> of \<^verbatim>\<open>run_until_complete\<close> inside a running event loop,
  the error of \<^verbatim>\<open>StdioServerParameters\<close>, the error of the transport client, or the
  error of the session's \<open>initialize\<close>. Nothing is wrapped and no server name is added.
  The failed attempt is not cached: the provider, and with it the mapping from names to
  sessions, is as before the call. A later call for the same name, in whatever world,
  runs the construction again, and makes a new connection attempt whenever nothing
  stops it before its client is called.
\<close>

theorem get_or_create_session_failure:
  assumes "find (\<lambda>c. name c = n) (servers self) = Some cfg"
    and "get_or_create_session lib n (self, w) = (Inl e, self1, w1)"
  shows "self1 = self \<and> sessions self1 n = None \<and>
         (e = loop_error \<and>
            (loop_is_running lib (events w) \<or>
             loop_is_running lib (events w @ [connect_event cfg])) \<or>
          stdio_server_parameters lib (command cfg) (args cfg) (env cfg) = Some e \<or>
          client_answer lib cfg w = Inl e \<or>
          (\<exists>rd wr. client_answer lib cfg w = Inr (rd, wr) \<and>
             initialize lib (events w @ [connect_event cfg]) (new_session w rd wr) = Some e)) \<and>
         (\<forall>w'. get_or_create_session lib n (self1, w') =
                create_session lib n cfg (self1, w')) \<and>
         (\<forall>w'. reaches_client lib cfg w' \<longrightarrow>
                connection_attempts (snd (snd (get_or_create_session lib n (self1, w')))) =
                Suc (connection_attempts w'))"
proof -
  have None: "sessions self n = None"
  proof (cases "sessions self n")
    case (Some c)
    with assms(2) show ?thesis by (simp add: get_or_create_session_cached)
  qed simp
  with assms have "create_session lib n cfg (self, w) = (Inl e, self1, w1)"
    by (simp add: get_or_create_session_miss)
  note raw = create_session_Inl [OF this]
  from raw have same: "self1 = self" by simp
  from None assms(1) same
  have again: "get_or_create_session lib n (self1, w') = create_session lib n cfg (self1, w')"
    for w'
    by (simp add: get_or_create_session_miss)
  from None same raw again show ?thesis
    by (simp add: create_session_attempts)
qed

theorem get_or_create_session_failure_witness:
  "find (\<lambda>c. name c = ''fetch'') (servers test_provider) = Some fetch_server \<and>
   get_or_create_session test_library ''fetch'' (test_provider, world0) =
     (Inl refused, test_provider, world_fetch_refused) \<and>
   sessions test_provider ''fetch'' = None \<and>
   client_answer test_library fetch_server world0 = Inl refused \<and>
   reaches_client test_library fetch_server world_fetch_refused \<and>
   connection_attempts
     (snd (snd (get_or_create_session test_library ''fetch''
                  (test_provider, world_fetch_refused)))) = 2"
proof -
  have cfg: "find (\<lambda>c. name c = ''fetch'') (servers test_provider) = Some fetch_server"
    by (simp add: test_provider_def say_server_def fetch_server_def)
  have failed: "get_or_create_session test_library ''fetch'' (test_provider, world0) =
     (Inl refused, test_provider, world_fetch_refused)"
    by (simp add: registry_defs scenario_defs)
  have raised: "client_answer test_library fetch_server world0 = Inl refused"
    by (simp add: client_answer_def fetch_server_def truthy_def test_library_def world0_def)
  have reach: "reaches_client test_library fetch_server world_fetch_refused"
    by (simp add: reaches_client_def fetch_server_def truthy_def test_library_def)
  have one: "connection_attempts world_fetch_refused = 1"
    by (simp add: connection_attempts_def world_fetch_refused_def)
  from get_or_create_session_failure [OF cfg failed] reach
  have retry: "connection_attempts
     (snd (snd (get_or_create_session test_library ''fetch''
                  (test_provider, world_fetch_refused)))) =
     Suc (connection_attempts world_fetch_refused)"
    by blast
  have none: "sessions test_provider ''fetch'' = None"
    by (simp add: test_provider_def)
  from retry none cfg failed raised reach one show ?thesis by simp
qed

subsection \<open>Callers that run at the same time\<close>

text \<open>A caller that runs alone does what \<open>_get_or_create_session\<close> does.\<close>

lemma run_schedule_alone:
  "run_schedule lib n [0, 0] [Start] st =
     (case get_or_create_session lib n st of (r, st1) \<Rightarrow> ([Returned r], st1))"
  by (cases st)
     (simp add: get_or_create_session_def split: lookup.splits prod.splits)

lemma run_schedule_interleaved:
  assumes "sessions self n = None" and "find (\<lambda>c. name c = n) (servers self) = Some cfg"
  shows "run_schedule lib n [0, 1, 0, 1] [Start, Start] (self, w) =
     (case create_session lib n cfg (self, w) of
        (r1, st1) \<Rightarrow>
          (case create_session lib n cfg st1 of
             (r2, st2) \<Rightarrow> ([Returned r1, Returned r2], st2)))"
  using assms by (simp add: find_session_def split: prod.splits)

lemma run_schedule_in_turn:
  assumes "sessions self n = None" and "find (\<lambda>c. name c = n) (servers self) = Some cfg"
    and "create_session lib n cfg (self, w) = (Inr s, self1, w1)"
  shows "run_schedule lib n [0, 0, 1, 1] [Start, Start] (self, w) =
     ([Returned (Inr s), Returned (Inr s)], self1, w1)"
proof -
  from create_session_Inr [OF assms(3)] have "sessions self1 n = Some s" by simp
  with assms show ?thesis by (simp add: find_session_def)
qed

text \<open>
  Claim C6, as stated: concurrent calls for one name cause exactly one connection
  attempt, the later callers waiting for the first. In the test scenario two callers
  ask for \<open>say\<close>; both check the cache before either has stored a session. Each then
  calls the client: there are two connection attempts and two different sessions, and
  the cache keeps the second.
\<close>

theorem concurrent_callers_counterexample:
  "run_schedule test_library ''say'' [0, 1, 0, 1] [Start, Start] (test_provider, world0) =
     ([Returned (Inr say_session), Returned (Inr second_session)],
      second_provider, world_two_sessions) \<and>
   say_session \<noteq> second_session \<and>
   connection_attempts world0 = 0 \<and> connection_attempts world_two_sessions = 2"
  by (simp add: registry_defs scenario_defs second_session_def second_provider_def
        world_two_sessions_def connection_attempts_def)

text \<open>
  Claim C6, amended. The callers of \<open>_get_or_create_session\<close> are not synchronised:
  there is no lock and no caller waits for another. For a name that is configured and
  not cached: when two callers both check the cache before either has stored its
  session, each runs the construction, and two connection attempts are made if nothing
  stops either construction before its client is called. When the second caller starts
  only after the first has returned a session, it gets that same session from the
  cache, and there is one connection attempt.
\<close>

theorem concurrent_callers:
  assumes "sessions self n = None" and "find (\<lambda>c. name c = n) (servers self) = Some cfg"
  shows "(reaches_client lib cfg w \<and>
          reaches_client lib cfg (snd (snd (create_session lib n cfg (self, w)))) \<longrightarrow>
            connection_attempts
              (snd (snd (run_schedule lib n [0, 1, 0, 1] [Start, Start] (self, w)))) =
            connection_attempts w + 2) \<and>
         (\<forall>s self1 w1. get_or_create_session lib n (self, w) = (Inr s, self1, w1) \<longrightarrow>
            run_schedule lib n [0, 0, 1, 1] [Start, Start] (self, w) =
              ([Returned (Inr s), Returned (Inr s)], self1, w1) \<and>
            connection_attempts w1 = Suc (connection_attempts w))"
proof (intro conjI allI impI)
  assume reach: "reaches_client lib cfg w \<and>
          reaches_client lib cfg (snd (snd (create_session lib n cfg (self, w))))"
  obtain r1 self1 w1 where c1: "create_session lib n cfg (self, w) = (r1, self1, w1)"
    by (cases "create_session lib n cfg (self, w)")
  obtain r2 self2 w2 where c2: "create_session lib n cfg (self1, w1) = (r2, self2, w2)"
    by (cases "create_session lib n cfg (self1, w1)")
  from reach c1 create_session_attempts [of lib cfg w n self]
  have a1: "connection_attempts w1 = Suc (connection_attempts w)" by simp
  from reach c1 c2 create_session_attempts [of lib cfg w1 n self1]
  have a2: "connection_attempts w2 = Suc (connection_attempts w1)" by simp
  have "run_schedule lib n [0, 1, 0, 1] [Start, Start] (self, w) =
     (case create_session lib n cfg (self, w) of
        (r1, st1) \<Rightarrow>
          (case create_session lib n cfg st1 of
             (r2, st2) \<Rightarrow> ([Returned r1, Returned r2], st2)))"
    using assms by (rule run_schedule_interleaved)
  also have "\<dots> = ([Returned r1, Returned r2], self2, w2)"
    by (simp add: c1 c2)
  finally have "snd (snd (run_schedule lib n [0, 1, 0, 1] [Start, Start] (self, w))) = w2"
    by (simp only: snd_conv)
  with a1 a2 show "connection_attempts
              (snd (snd (run_schedule lib n [0, 1, 0, 1] [Start, Start] (self, w)))) =
            connection_attempts w + 2"
    by simp
next
  fix s self1 w1
  assume "get_or_create_session lib n (self, w) = (Inr s, self1, w1)"
  with assms have c: "create_session lib n cfg (self, w) = (Inr s, self1, w1)"
    by (simp add: get_or_create_session_miss)
  from assms c show "run_schedule lib n [0, 0, 1, 1] [Start, Start] (self, w) =
              ([Returned (Inr s), Returned (Inr s)], self1, w1)"
    by (rule run_schedule_in_turn)
  from create_session_Inr [OF c] have "reaches_client lib cfg w" by simp
  from create_session_attempts [OF this, of n self] c
  show "connection_attempts w1 = Suc (connection_attempts w)" by simp
qed

theorem concurrent_callers_witness:
  "sessions test_provider ''say'' = None \<and>
   find (\<lambda>c. name c = ''say'') (servers test_provider) = Some say_server \<and>
   reaches_client test_library say_server world0 \<and>
   reaches_client test_library say_server
     (snd (snd (create_session test_library ''say'' say_server (test_provider, world0)))) \<and>
   connection_attempts
     (snd (snd (run_schedule test_library ''say'' [0, 1, 0, 1] [Start, Start]
                  (test_provider, world0)))) = 2 \<and>
   get_or_create_session test_library ''say'' (test_provider, world0) =
     (Inr say_session, say_provider, world_say_ready) \<and>
   run_schedule test_library ''say'' [0, 0, 1, 1] [Start, Start] (test_provider, world0) =
     ([Returned (Inr say_session), Returned (Inr say_session)],
      say_provider, world_say_ready)"
proof -
  have none: "sessions test_provider ''say'' = None"
    by (simp add: test_provider_def)
  have cfg: "find (\<lambda>c. name c = ''say'') (servers test_provider) = Some say_server"
    by (simp add: test_provider_def say_server_def)
  have reach: "reaches_client test_library say_server world0 \<and>
     reaches_client test_library say_server
       (snd (snd (create_session test_library ''say'' say_server (test_provider, world0))))"
    by (simp add: reaches_client_def test_library_def say_server_def truthy_def)
  have first: "get_or_create_session test_library ''say'' (test_provider, world0) =
     (Inr say_session, say_provider, world_say_ready)"
    by (simp add: registry_defs scenario_defs)
  have zero: "connection_attempts world0 = 0"
    by (simp add: connection_attempts_def world0_def)
  note c = concurrent_callers [OF none cfg, of test_library world0]
  from c reach zero have two: "connection_attempts
     (snd (snd (run_schedule test_library ''say'' [0, 1, 0, 1] [Start, Start]
                  (test_provider, world0)))) = 2"
    by simp
  from c first have turn: "run_schedule test_library ''say'' [0, 0, 1, 1] [Start, Start]
       (test_provider, world0) =
     ([Returned (Inr say_session), Returned (Inr say_session)],
      say_provider, world_say_ready)"
    by blast
  from none cfg reach two first turn show ?thesis by blast
qed

subsection \<open>What every reachable provider satisfies\<close>

lemma find_name_Some:
  "find (\<lambda>c. name c = n) cs = Some cfg \<Longrightarrow> name cfg = n \<and> cfg \<in> set cs"
  by (auto simp: find_Some_iff)

lemma find_name_None:
  "n \<notin> name ` set cs \<Longrightarrow> find (\<lambda>c. name c = n) cs = None"
  by (auto simp: find_None_iff)

lemma get_or_create_session_inv:
  assumes "registry_inv self0 (fst st)"
  shows "registry_inv self0 (fst (snd (get_or_create_session lib n st)))"
proof -
  obtain self w where st: "st = (self, w)" by (cases st)
  show ?thesis
  proof (cases "sessions self n")
    case (Some c)
    with assms st show ?thesis by (simp add: get_or_create_session_cached)
  next
    case None
    show ?thesis
    proof (cases "find (\<lambda>c. name c = n) (servers self)")
      case N: None
      with None assms st show ?thesis by (simp add: get_or_create_session_unknown)
    next
      case (Some cfg)
      then have known: "n \<in> name ` set (servers self)"
        by (auto dest: find_name_Some)
      from None Some st have "get_or_create_session lib n st =
          create_session lib n cfg (self, w)"
        by (simp add: get_or_create_session_miss)
      moreover have "registry_inv self0 (fst (snd (create_session lib n cfg (self, w))))"
        by (cases rule: create_session_cases [of lib cfg w n self])
           (use assms st known in \<open>auto simp: registry_inv_def\<close>)
      ultimately show ?thesis by simp
    qed
  qed
qed

lemma get_tools_from_server_inv:
  assumes "registry_inv self0 (fst st)"
  shows "registry_inv self0 (fst (snd (get_tools_from_server lib n st)))"
proof -
  define m where "m = (case n of None \<Rightarrow> default_server (fst st) | Some k \<Rightarrow> k)"
  obtain r self1 w1 where g: "get_or_create_session lib m st = (r, self1, w1)"
    by (cases "get_or_create_session lib m st")
  from get_or_create_session_inv [OF assms, of lib m] g have "registry_inv self0 self1"
    by simp
  with g show ?thesis
    by (cases r) (simp_all add: get_tools_from_server_def m_def [symmetric] split: prod.splits)
qed

lemma get_all_tools_loop_inv:
  "registry_inv self0 (fst st) \<Longrightarrow>
   registry_inv self0 (fst (snd (get_all_tools_loop lib srvs acc st)))"
proof (induction srvs arbitrary: acc st)
  case Nil
  then show ?case by simp
next
  case (Cons server rest)
  from get_tools_from_server_inv [OF Cons.prems, of lib "Some (name server)"]
  show ?case
    by (auto split: prod.splits sum.splits intro: Cons.IH [where st = "(a, b)" for a b, simplified])
qed

lemma perform_inv:
  "registry_inv self0 (fst st) \<Longrightarrow> registry_inv self0 (fst (perform lib r st))"
  by (cases r)
     (simp_all add: get_or_create_session_inv get_tools_from_server_inv get_all_tools_def
        get_all_tools_loop_inv)

lemma perform_all_inv:
  "registry_inv self0 (fst st) \<Longrightarrow> registry_inv self0 (fst (perform_all lib rs st))"
  by (induction rs arbitrary: st) (simp_all add: perform_inv)

lemma MCPToolProvider_init_inv:
  "MCPToolProvider_init environ srvs dflt akey = Inr self0 \<Longrightarrow> registry_inv self0 self0"
  by (auto simp: MCPToolProvider_init_def registry_inv_def split: option.splits if_splits list.splits)

text \<open>
  Claim C8. Take a provider as its constructor returns it and let clients use it in any
  way. For a server name that is not among the configured servers,
  \<open>_get_or_create_session\<close> then fails with the source's error for an unknown server
  (a \<^verbatim>\<open>ValueError\<close>) whose message ends with that name, and the provider and the world
  are as before: no client was called, no connection was attempted.
\<close>

theorem get_or_create_session_unknown_server:
  assumes "MCPToolProvider_init environ srvs dflt akey = Inr self0"
    and "perform_all lib rs (self0, w0) = (self, w)"
    and "n \<notin> name ` set (servers self)"
  shows "get_or_create_session lib n (self, w) =
           (Inl (Exn ValueError (''No server configuration found for '' @ n) None), self, w) \<and>
         sublist n (''No server configuration found for '' @ n) \<and>
         connection_attempts (snd (snd (get_or_create_session lib n (self, w)))) =
           connection_attempts w"
proof -
  from assms(1) have "registry_inv self0 (fst (self0, w0))"
    by (simp add: MCPToolProvider_init_inv)
  then have "registry_inv self0 (fst (perform_all lib rs (self0, w0)))"
    by (rule perform_all_inv)
  with assms(2) have inv: "registry_inv self0 self" by simp
  with assms(3) have "n \<notin> dom (sessions self)"
    by (auto simp: registry_inv_def)
  then have "sessions self n = None" by auto
  moreover from assms(3) have "find (\<lambda>c. name c = n) (servers self) = None"
    by (rule find_name_None)
  ultimately have "get_or_create_session lib n (self, w) =
           (Inl (Exn ValueError (''No server configuration found for '' @ n) None), self, w)"
    by (rule get_or_create_session_unknown)
  moreover have "sublist n (''No server configuration found for '' @ n)"
    by (rule sublist_append_leftI)
  ultimately show ?thesis by simp
qed


theorem get_or_create_session_unknown_server_witness:
  "MCPToolProvider_init Map.empty (Some [say_server, fetch_server]) None (Some ''k'') =
     Inr test_provider \<and>
   perform_all test_library [Get_or_create_session ''say''] (test_provider, world0) =
     (say_provider, world_say_ready) \<and>
   ''other'' \<notin> name ` set (servers say_provider) \<and>
   get_or_create_session test_library ''other'' (say_provider, world_say_ready) =
     (Inl (Exn ValueError ''No server configuration found for other'' None),
      say_provider, world_say_ready)"
proof -
  have init: "MCPToolProvider_init Map.empty (Some [say_server, fetch_server]) None (Some ''k'') =
     Inr test_provider"
    by (simp add: MCPToolProvider_init_def truthy_def or_empty_def test_provider_def
          say_server_def)
  have used: "perform_all test_library [Get_or_create_session ''say''] (test_provider, world0) =
     (say_provider, world_say_ready)"
    by (simp add: registry_defs scenario_defs)
  have unknown: "''other'' \<notin> name ` set (servers say_provider)"
    by (simp add: say_provider_def say_server_def fetch_server_def)
  from get_or_create_session_unknown_server [OF init used unknown] init used unknown
  show ?thesis by simp
qed

subsection \<open>Listing the tools of one server\<close>

lemma MCPTool_init_sel:
  "tool_name (MCPTool_init nm descr sess d) = nm"
  "tool_client_session (MCPTool_init nm descr sess d) = sess"
  "mcp_schema (MCPTool_init nm descr sess d) = d"
  by (simp_all add: MCPTool_init_def)

lemma create_mcp_tools_loop_Inr:
  "create_mcp_tools_loop sess ds acc = Inr tools \<Longrightarrow>
   \<exists>new. tools = acc @ new \<and> list_all2 (adapted sess) new ds"
proof (induction ds arbitrary: acc)
  case Nil
  then show ?case by simp
next
  case (Cons d ds)
  from Cons.prems obtain nm where nm: "d_name d = Some nm"
    by (cases "d_name d") simp_all
  define t where "t = MCPTool_init nm (case d_description d of None \<Rightarrow> [] | Some x \<Rightarrow> x) sess d"
  from Cons.prems nm have "create_mcp_tools_loop sess ds (acc @ [t]) = Inr tools"
    by (simp add: t_def)
  from Cons.IH [OF this] obtain new where new: "tools = (acc @ [t]) @ new"
    "list_all2 (adapted sess) new ds" by blast
  have "adapted sess t d"
    by (simp add: adapted_def t_def nm MCPTool_init_sel)
  with new show ?case by (intro exI [of _ "t # new"]) simp
qed

lemma create_mcp_tools_Inr:
  "create_mcp_tools lib sess w = (Inr tools, w2) \<Longrightarrow>
   \<exists>ds. list_tools lib (events w) sess = Inr ds \<and> list_all2 (adapted sess) tools ds \<and>
        w2 = emit (List_tools sess) w"
  by (auto simp: create_mcp_tools_def split: sum.splits dest: create_mcp_tools_loop_Inr)

lemma get_tools_from_server_None:
  "get_tools_from_server lib None (self, w) =
   get_tools_from_server lib (Some (default_server self)) (self, w)"
  by (simp add: get_tools_from_server_def)

lemma get_tools_from_server_Inr:
  assumes "get_tools_from_server lib (Some n) (self, w) = (Inr tools, self1, w2)"
  shows "\<exists>session w1 ds.
           get_or_create_session lib n (self, w) = (Inr session, self1, w1) \<and>
           sessions self1 n = Some session \<and>
           list_tools lib (events w1) session = Inr ds \<and>
           list_all2 (adapted session) tools ds"
proof -
  obtain r self' w1 where g: "get_or_create_session lib n (self, w) = (r, self', w1)"
    by (cases "get_or_create_session lib n (self, w)")
  with assms obtain session where r: "r = Inr session"
    by (cases r) (simp_all add: get_tools_from_server_def)
  with g assms have c: "create_mcp_tools lib session w1 = (Inr tools, w2)" and "self' = self1"
    by (simp_all add: get_tools_from_server_def split: prod.splits if_splits)
  from g r \<open>self' = self1\<close> have g': "get_or_create_session lib n (self, w) = (Inr session, self1, w1)"
    by simp
  from g' have "sessions self1 n = Some session"
    by (rule get_or_create_session_caches)
  with g' create_mcp_tools_Inr [OF c] show ?thesis by blast
qed

text \<open>
  Claim C7. \<open>get_tools_from_server\<close> without a server name does what it does with the
  name of the default server. With a name, a successful call returns exactly the adapted
  capabilities of that name's session: the session is the one the registry returns and
  holds for the name, the tools correspond one by one and in order to the descriptors
  that session's \<open>list_tools\<close> advertises, and each tool is bound to that session.
\<close>

theorem get_tools_from_server_default:
  "get_tools_from_server lib None (self, w) =
     get_tools_from_server lib (Some (default_server self)) (self, w) \<and>
   (\<forall>n tools self1 w2.
      get_tools_from_server lib (Some n) (self, w) = (Inr tools, self1, w2) \<longrightarrow>
      (\<exists>session w1 ds.
           get_or_create_session lib n (self, w) = (Inr session, self1, w1) \<and>
           sessions self1 n = Some session \<and>
           list_tools lib (events w1) session = Inr ds \<and>
           list_all2 (adapted session) tools ds))"
  using get_tools_from_server_None get_tools_from_server_Inr by blast

theorem get_tools_from_server_default_witness:
  "get_tools_from_server test_library (Some ''say'') (test_provider, world0) =
     (Inr [echo_tool], say_provider, world_say_listed) \<and>
   get_tools_from_server test_library None (test_provider, world0) =
     (Inr [echo_tool], say_provider, world_say_listed) \<and>
   default_server test_provider = ''say'' \<and>
   (\<exists>session w1 ds.
      get_or_create_session test_library ''say'' (test_provider, world0) =
        (Inr session, say_provider, w1) \<and>
      sessions say_provider ''say'' = Some session \<and>
      list_tools test_library (events w1) session = Inr ds \<and>
      list_all2 (adapted session) [echo_tool] ds)"
proof -
  have named: "get_tools_from_server test_library (Some ''say'') (test_provider, world0) =
     (Inr [echo_tool], say_provider, world_say_listed)"
    by (simp add: get_tools_from_server_def create_mcp_tools_def registry_defs scenario_defs
          echo_tool_def echo_descriptor_def)
  have dflt: "default_server test_provider = ''say''"
    by (simp add: test_provider_def)
  from get_tools_from_server_default [of test_library test_provider world0] named dflt
  show ?thesis by simp
qed

subsection \<open>Constructing the provider\<close>

lemma MCPToolProvider_init_no_servers:
  "or_empty srvs = [] \<Longrightarrow>
   MCPToolProvider_init environ srvs dflt akey =
     Inl (Exn ValueError
            (if key_given environ akey then ''At least one MCP server must be configured''
             else ''Anthropic API key must be provided for MCP integration'') None)"
  by (auto simp: MCPToolProvider_init_def key_given_def truthy_def split: option.splits)

lemma MCPToolProvider_init_first:
  "MCPToolProvider_init environ (Some (s0 # rest)) None akey = Inr self \<Longrightarrow>
   servers self = s0 # rest \<and> default_server self = name s0 \<and> sessions self = Map.empty"
  by (auto simp: MCPToolProvider_init_def or_empty_def split: option.splits if_splits)

lemma MCPToolProvider_init_succeeds:
  "key_given environ akey \<Longrightarrow>
   \<exists>self. MCPToolProvider_init environ (Some (s0 # rest)) None akey = Inr self"
  by (auto simp: MCPToolProvider_init_def key_given_def truthy_def or_empty_def split: option.splits if_splits)

text \<open>
  Claim C10. Constructing the provider with a non-empty server list and no default
  server succeeds when an API key is available, and the provider it returns has the name
  of the first server as default: that name resolves to the first server's
  configuration, and \<open>get_tools_from_server\<close> without a name does what it does with the
  first server's name. With no server list, or an empty one, the construction fails with
  an error.
\<close>

theorem MCPToolProvider_init_default_server:
  "(key_given environ akey \<longrightarrow>
      (\<exists>self. MCPToolProvider_init environ (Some (s0 # rest)) None akey = Inr self)) \<and>
   (\<forall>self. MCPToolProvider_init environ (Some (s0 # rest)) None akey = Inr self \<longrightarrow>
      default_server self = name s0 \<and>
      find (\<lambda>c. name c = default_server self) (servers self) = Some s0 \<and>
      (\<forall>w. get_tools_from_server lib None (self, w) =
            get_tools_from_server lib (Some (name s0)) (self, w))) \<and>
   (\<exists>m. MCPToolProvider_init environ None dflt akey = Inl (Exn ValueError m None)) \<and>
   (\<exists>m. MCPToolProvider_init environ (Some []) dflt akey = Inl (Exn ValueError m None))"
proof (intro conjI allI impI)
  assume "key_given environ akey"
  then show "\<exists>self. MCPToolProvider_init environ (Some (s0 # rest)) None akey = Inr self"
    by (rule MCPToolProvider_init_succeeds)
next
  fix self
  assume "MCPToolProvider_init environ (Some (s0 # rest)) None akey = Inr self"
  note f = MCPToolProvider_init_first [OF this]
  from f show "default_server self = name s0" by simp
  from f show "find (\<lambda>c. name c = default_server self) (servers self) = Some s0" by simp
  fix w
  from f show "get_tools_from_server lib None (self, w) =
            get_tools_from_server lib (Some (name s0)) (self, w)"
    by (simp add: get_tools_from_server_None)
next
  show "\<exists>m. MCPToolProvider_init environ None dflt akey = Inl (Exn ValueError m None)"
    by (simp add: MCPToolProvider_init_no_servers or_empty_def)
next
  show "\<exists>m. MCPToolProvider_init environ (Some []) dflt akey = Inl (Exn ValueError m None)"
    by (simp add: MCPToolProvider_init_no_servers or_empty_def)
qed

theorem MCPToolProvider_init_default_server_witness:
  "key_given Map.empty (Some ''k'') \<and>
   MCPToolProvider_init Map.empty (Some [say_server, fetch_server]) None (Some ''k'') =
     Inr test_provider \<and>
   default_server test_provider = name say_server \<and>
   find (\<lambda>c. name c = default_server test_provider) (servers test_provider) =
     Some say_server \<and>
   get_tools_from_server test_library None (test_provider, world0) =
     get_tools_from_server test_library (Some (name say_server)) (test_provider, world0)"
proof -
  have key: "key_given Map.empty (Some ''k'')"
    by (simp add: key_given_def truthy_def)
  have init: "MCPToolProvider_init Map.empty (Some [say_server, fetch_server]) None (Some ''k'') =
     Inr test_provider"
    by (simp add: MCPToolProvider_init_def truthy_def or_empty_def test_provider_def
          say_server_def)
  from MCPToolProvider_init_default_server
         [of Map.empty "Some ''k''" say_server "[fetch_server]" test_library]
       init
  have "default_server test_provider = name say_server \<and>
        find (\<lambda>c. name c = default_server test_provider) (servers test_provider) =
          Some say_server \<and>
        get_tools_from_server test_library None (test_provider, world0) =
          get_tools_from_server test_library (Some (name say_server)) (test_provider, world0)"
    by blast
  with key init show ?thesis by blast
qed

subsection \<open>Listing the tools of all servers\<close>

lemma get_all_tools_loop_per_server:
  "get_all_tools_loop lib srvs acc st =
     (case tools_per_server lib srvs st of
        (Inl e, st1) \<Rightarrow> (Inl e, st1)
      | (Inr tss, st1) \<Rightarrow> (Inr (acc @ concat tss), st1))"
proof (induction srvs arbitrary: acc st)
  case Nil
  show ?case by simp
next
  case (Cons server rest)
  show ?case
    by (simp add: Cons.IH split: prod.splits sum.splits)
qed

lemma tools_per_server_length:
  "tools_per_server lib srvs st = (Inr tss, st1) \<Longrightarrow> length tss = length srvs"
  by (induction srvs arbitrary: st tss) (auto split: prod.splits sum.splits)

lemma tools_per_server_fails:
  "tools_per_server lib pre st = (Inr tss, st1) \<Longrightarrow>
   get_tools_from_server lib (Some (name b)) st1 = (Inl e, st2) \<Longrightarrow>
   tools_per_server lib (pre @ b # post) st = (Inl e, st2)"
proof (induction pre arbitrary: st tss)
  case Nil
  then show ?case by simp
next
  case (Cons a pre)
  from Cons.prems(1) obtain ts sta tss' where
    a: "get_tools_from_server lib (Some (name a)) st = (Inr ts, sta)" and
    r: "tools_per_server lib pre sta = (Inr tss', st1)"
    by (auto split: prod.splits sum.splits)
  from Cons.IH [OF r Cons.prems(2)] a show ?case by simp
qed

text \<open>
  Claim C2. \<open>get_all_tools\<close> goes through the configured servers in configuration
  order: when every server answers, it returns the concatenation, in that order, of the
  tool lists of the servers, one list per server. When the servers before some server
  \<open>b\<close> have answered and fetching the tools of \<open>b\<close> fails, the whole call fails with
  that error; its result is the error alone and holds none of the tools gathered
  before.
\<close>

theorem get_all_tools_in_order:
  "get_all_tools lib st =
     (case tools_per_server lib (servers (fst st)) st of
        (Inl e, st1) \<Rightarrow> (Inl e, st1)
      | (Inr tss, st1) \<Rightarrow> (Inr (concat tss), st1)) \<and>
   (\<forall>tss st1. tools_per_server lib (servers (fst st)) st = (Inr tss, st1) \<longrightarrow>
        length tss = length (servers (fst st))) \<and>
   (\<forall>pre b post tss st1 e st2.
        servers (fst st) = pre @ b # post \<and>
        tools_per_server lib pre st = (Inr tss, st1) \<and>
        get_tools_from_server lib (Some (name b)) st1 = (Inl e, st2) \<longrightarrow>
        get_all_tools lib st = (Inl e, st2))"
proof (intro conjI allI impI)
  show "get_all_tools lib st =
     (case tools_per_server lib (servers (fst st)) st of
        (Inl e, st1) \<Rightarrow> (Inl e, st1)
      | (Inr tss, st1) \<Rightarrow> (Inr (concat tss), st1))"
    by (simp add: get_all_tools_def get_all_tools_loop_per_server split: prod.splits sum.splits)
next
  fix tss st1
  assume "tools_per_server lib (servers (fst st)) st = (Inr tss, st1)"
  then show "length tss = length (servers (fst st))"
    by (rule tools_per_server_length)
next
  fix pre b post tss st1 e st2
  assume a: "servers (fst st) = pre @ b # post \<and>
        tools_per_server lib pre st = (Inr tss, st1) \<and>
        get_tools_from_server lib (Some (name b)) st1 = (Inl e, st2)"
  then have "tools_per_server lib (pre @ b # post) st = (Inl e, st2)"
    by (auto intro: tools_per_server_fails)
  with a show "get_all_tools lib st = (Inl e, st2)"
    by (simp add: get_all_tools_def get_all_tools_loop_per_server)
qed



theorem get_all_tools_in_order_witness:
  "servers (fst (test_provider, world0)) = [say_server] @ fetch_server # [] \<and>
   tools_per_server test_library [say_server] (test_provider, world0) =
     (Inr ([echo_tool] # []), say_provider, world_say_listed) \<and>
   get_tools_from_server test_library (Some (name fetch_server))
       (say_provider, world_say_listed) =
     (Inl refused, say_provider, world_all_failed) \<and>
   get_all_tools test_library (test_provider, world0) =
     (Inl refused, say_provider, world_all_failed)"
proof -
  have srvs: "servers (fst (test_provider, world0)) = [say_server] @ fetch_server # []"
    by (simp add: test_provider_def)
  have say: "tools_per_server test_library [say_server] (test_provider, world0) =
     (Inr ([echo_tool] # []), say_provider, world_say_listed)"
    by (simp add: get_tools_from_server_def create_mcp_tools_def registry_defs scenario_defs
          echo_tool_def echo_descriptor_def)
  have fetch: "get_tools_from_server test_library (Some (name fetch_server))
       (say_provider, world_say_listed) =
     (Inl refused, say_provider, world_all_failed)"
    by (simp add: get_tools_from_server_def registry_defs scenario_defs)
  from get_all_tools_in_order [of test_library "(test_provider, world0)"] srvs say fetch
  have "get_all_tools test_library (test_provider, world0) =
     (Inl refused, say_provider, world_all_failed)"
    by blast
  with srvs say fetch show ?thesis by simp
qed

end
